theory Spec2Isabelle
  imports Complex_Main "HOL-Library.List_Lexorder" "HOL-Library.Char_ord" "HOL-Library.Option_ord"
begin

section \<open>Text, numbers and the school registry\<close>

text \<open>
  A Python \<^verbatim>\<open>str\<close> is a sequence of Unicode code points, compared and ordered code point
  by code point; the Korean literals of \<^verbatim>\<open>main.py\<close> are written as lists of code points.
  Column labels and colours are ASCII and stay HOL strings. A pandas float cell is a real
  number or missing (\<open>None\<close> for NaN and NaT).
\<close>

type_synonym ustr = "nat list"

text \<open>The four school names of the registry.\<close>

definition songdo :: ustr where "songdo = [49569, 46020, 44256]"
definition haneul :: ustr where "haneul = [54616, 45720, 44256]"
definition ara :: ustr where "ara = [50500, 46972, 44256]"
definition dongsan :: ustr where "dongsan = [46041, 49328, 44256]"

text \<open>
  The two Korean markers that line 57 and line 113 look for in a file name (``environment
  data'' and ``growth result data''), and the two extensions.
\<close>

definition env_marker :: ustr where
  "env_marker = [54872, 44221, 45936, 51060, 53552]"
definition growth_marker :: ustr where
  "growth_marker = [49373, 50977, 44208, 44284, 45936, 51060, 53552]"
definition dot_csv :: ustr where "dot_csv = [46, 99, 115, 118]"
definition dot_xlsx :: ustr where "dot_xlsx = [46, 120, 108, 115, 120]"

record school_config =
  EC_goal :: real
  color :: string

text \<open>\<^verbatim>\<open>EC_MAPPING\<close> (lines 33-38); a dict keeps its insertion order, so it is an association list.\<close>

definition EC_MAPPING :: "(ustr \<times> school_config) list" where
  "EC_MAPPING =
    [(songdo, \<lparr>EC_goal = 1, color = ''#1f77b4''\<rparr>),
     (haneul, \<lparr>EC_goal = 2, color = ''#2ca02c''\<rparr>),
     (ara, \<lparr>EC_goal = 4, color = ''#ff7f0e''\<rparr>),
     (dongsan, \<lparr>EC_goal = 8, color = ''#d62728''\<rparr>)]"

subsection \<open>String helpers\<close>

text \<open>\<^verbatim>\<open>sub in s\<close>: \<open>sub\<close> occurs in \<open>s\<close> as a contiguous run.\<close>

fun str_contains :: "ustr \<Rightarrow> ustr \<Rightarrow> bool" where
  "str_contains sub [] = (sub = [])"
| "str_contains sub (c # cs) = (take (length sub) (c # cs) = sub \<or> str_contains sub cs)"

text \<open>\<^verbatim>\<open>s.split(sep)[0]\<close>: the text before the first separator, all of \<open>s\<close> when there is none.\<close>

definition split_first :: "'a \<Rightarrow> 'a list \<Rightarrow> 'a list" where
  "split_first sep s = takeWhile (\<lambda>c. c \<noteq> sep) s"

text \<open>
  \<^verbatim>\<open>str.lower\<close> on the ASCII letters. Outside ASCII the only code points that lower-case to
  an ASCII letter give \<open>i\<close> and \<open>k\<close>, so comparing with \<^verbatim>\<open>'.csv'\<close> or \<^verbatim>\<open>'.xlsx'\<close> is decided here.
\<close>

definition str_lower :: "ustr \<Rightarrow> ustr" where
  "str_lower s = map (\<lambda>c. if 65 \<le> c \<and> c \<le> 90 then c + 32 else c) s"

text \<open>\<^verbatim>\<open>s.rfind(c)\<close>: the last position of \<open>c\<close>.\<close>

definition rfind :: "'a \<Rightarrow> 'a list \<Rightarrow> nat option" where
  "rfind c s = (case filter (\<lambda>i. s ! i = c) (rev [0..<length s]) of
                  [] \<Rightarrow> None | i # _ \<Rightarrow> Some i)"

text \<open>\<^verbatim>\<open>Path.suffix\<close> of a file name: from the last dot on, unless that dot is first or last.\<close>

definition path_suffix :: "ustr \<Rightarrow> ustr" where
  "path_suffix nm =
     (case rfind 46 nm of
        None \<Rightarrow> []
      | Some i \<Rightarrow> if 0 < i \<and> i < length nm - 1 then drop i nm else [])"

section \<open>The library and the file system\<close>

text \<open>
  The functions of \<^verbatim>\<open>unicodedata\<close> and pandas that the loaders call cell by cell are
  parameters: NFC normalisation, the two coercions with \<^verbatim>\<open>errors='coerce'\<close> (an
  unparseable cell gives \<open>None\<close>), and the test for a missing cell.
\<close>

record ('c, 't) library =
  normalize_NFC :: "ustr \<Rightarrow> ustr"
  to_datetime :: "'c \<Rightarrow> 't option"
  to_numeric :: "'c \<Rightarrow> real option"
  isna :: "'c \<Rightarrow> bool"

datatype error = ReadFailure string | LengthMismatch nat nat | SheetNotFound ustr

text \<open>
  A parsed table: the labels read from the header, and the data rows. pandas tables are
  rectangular: every row has one cell for each column.
\<close>

record 'c frame =
  columns :: "ustr list"
  rows :: "'c list list"

text \<open>
  An opened workbook: its sheets in order, each with the outcome of parsing it.
  A directory entry: its name, whether it is a regular file, and what
  \<^verbatim>\<open>pd.read_csv(path, encoding='utf-8')\<close> and \<^verbatim>\<open>pd.ExcelFile(path, engine='openpyxl')\<close>
  give for it.
\<close>

type_synonym 'c workbook = "(ustr \<times> (error + 'c frame)) list"

record 'c dir_entry =
  path_name :: ustr
  is_file :: bool
  read_csv :: "error + 'c frame"
  ExcelFile :: "error + 'c workbook"

text \<open>What \<^verbatim>\<open>st.error\<close> and \<^verbatim>\<open>st.warning\<close> report, in the order of the calls.\<close>

datatype notice =
    EnvFileError ustr error
  | NoEnvData
  | NoGrowthFile
  | WorkbookError error
  | SheetWarning ustr error
  | NoGrowthSheets

section \<open>The aggregator\<close>

text \<open>
  \<^verbatim>\<open>df.groupby(key)\<close> with the defaults \<^verbatim>\<open>sort=True\<close>: one group for each distinct key,
  the groups in ascending order of the key, the rows of a group in the order of the table.
  The two key columns, \<open>school\<close> and \<open>ec_goal\<close>, are filled from the registry and never
  missing.
\<close>

definition groupby :: "('r \<Rightarrow> 'k::linorder) \<Rightarrow> 'r list \<Rightarrow> ('k \<times> 'r list) list" where
  "groupby key df =
     map (\<lambda>k. (k, filter (\<lambda>r. key r = k) df)) (sort (remdups (map key df)))"

definition notna :: "'a option list \<Rightarrow> 'a list" where
  "notna xs = [v. Some v \<leftarrow> xs]"

text \<open>The aggregations \<^verbatim>\<open>'mean'\<close>, \<^verbatim>\<open>'count'\<close> and \<^verbatim>\<open>'first'\<close>: all three skip missing cells.\<close>

definition mean_agg :: "real option list \<Rightarrow> real option" where
  "mean_agg xs =
     (case notna xs of
        [] \<Rightarrow> None
      | v # vs \<Rightarrow> Some (sum_list (v # vs) / real (length (v # vs))))"

definition count_agg :: "'a option list \<Rightarrow> nat" where
  "count_agg xs = length (notna xs)"

definition first_agg :: "'a option list \<Rightarrow> 'a option" where
  "first_agg xs = (case notna xs of [] \<Rightarrow> None | v # _ \<Rightarrow> Some v)"

section \<open>Environment data\<close>

record 't env_record =
  time :: "'t option"
  temperature :: "real option"
  humidity :: "real option"
  ph :: "real option"
  ec :: "real option"
  school :: ustr
  ec_goal :: real

record env_summary =
  s_school :: ustr
  avg_temp :: "real option"
  avg_humidity :: "real option"
  avg_ph :: "real option"
  avg_ec :: "real option"
  s_ec_goal :: "real option"
  count :: nat

text \<open>
  Lines 66-75 on one parsed file whose five columns are already renamed: coerce the
  \<open>time\<close> column, drop the rows where it is missing, coerce the four numeric columns,
  then add the \<open>school\<close> and \<open>ec_goal\<close> columns. The table has five columns here, so
  the positions 0 to 4 of a row are its five cells.
\<close>

definition env_rows ::
  "('c, 't) library \<Rightarrow> ustr \<Rightarrow> real \<Rightarrow> 'c frame \<Rightarrow> 't env_record list" where
  "env_rows L school_name goal df =
     (let timed = map (\<lambda>r. (to_datetime L (r ! 0), r)) (rows df);
          kept = filter (\<lambda>(t, r). t \<noteq> None) timed
      in map (\<lambda>(t, r).
            \<lparr>time = t,
             temperature = to_numeric L (r ! 1),
             humidity = to_numeric L (r ! 2),
             ph = to_numeric L (r ! 3),
             ec = to_numeric L (r ! 4),
             school = school_name,
             ec_goal = goal\<rparr>) kept)"

datatype 'a outcome = Skipped | Failed notice | Loaded 'a

text \<open>
  The body of the loop of \<^verbatim>\<open>load_and_preprocess_env_data\<close> (lines 52-79) for one directory
  entry. The test of line 61 and the lookup of line 75 are one lookup in the registry.
  Assigning five labels to a table of another width raises; every exception inside
  the \<^verbatim>\<open>try\<close> is reported with the file's name and the file adds nothing.
\<close>

definition env_file ::
  "('c, 't) library \<Rightarrow> 'c dir_entry \<Rightarrow> 't env_record list outcome" where
  "env_file L p =
     (if is_file p \<and> str_lower (path_suffix (path_name p)) = dot_csv then
        (let normalized_name = normalize_NFC L (path_name p) in
         if str_contains env_marker normalized_name then
           (let school_name = split_first 95 normalized_name in
            case map_of EC_MAPPING school_name of
              None \<Rightarrow> Skipped
            | Some cfg \<Rightarrow>
                (case read_csv p of
                   Inl e \<Rightarrow> Failed (EnvFileError normalized_name e)
                 | Inr df \<Rightarrow>
                     if length (columns df) \<noteq> 5
                     then Failed (EnvFileError normalized_name
                                    (LengthMismatch (length (columns df)) 5))
                     else Loaded (env_rows L school_name (EC_goal cfg) df)))
         else Skipped)
      else Skipped)"

text \<open>
  Both loaders run the same loop: each item is skipped, fails with a notice, or appends
  its rows to the list of loaded tables. The result is the notices and that list.
\<close>

fun collect :: "('a \<Rightarrow> 'b outcome) \<Rightarrow> 'a list \<Rightarrow> notice list \<times> 'b list" where
  "collect f [] = ([], [])"
| "collect f (p # ps) =
     (let (ns, loaded) = collect f ps in
      case f p of
        Skipped \<Rightarrow> (ns, loaded)
      | Failed n \<Rightarrow> (n # ns, loaded)
      | Loaded df \<Rightarrow> (ns, df # loaded))"

text \<open>The summary of lines 88-95.\<close>

definition env_summary_of :: "'t env_record list \<Rightarrow> env_summary list" where
  "env_summary_of env_df =
     map (\<lambda>(k, g).
           \<lparr>s_school = k,
            avg_temp = mean_agg (map temperature g),
            avg_humidity = mean_agg (map humidity g),
            avg_ph = mean_agg (map ph g),
            avg_ec = mean_agg (map ec g),
            s_ec_goal = first_agg (map (\<lambda>r. Some (ec_goal r)) g),
            count = count_agg (map time g)\<rparr>)
         (groupby school env_df)"

text \<open>
  \<^verbatim>\<open>load_and_preprocess_env_data\<close>: the notices, \<^verbatim>\<open>env_df\<close> and \<^verbatim>\<open>env_summary_df\<close>.
  The test of line 81 is on the list of loaded files.
\<close>

definition load_and_preprocess_env_data ::
  "('c, 't) library \<Rightarrow> 'c dir_entry list
     \<Rightarrow> notice list \<times> 't env_record list \<times> env_summary list" where
  "load_and_preprocess_env_data L data_dir =
     (let (ns, all_env_data) = collect (env_file L) data_dir in
      if all_env_data = [] then (ns @ [NoEnvData], [], [])
      else (let env_df = concat all_env_data in (ns, env_df, env_summary_of env_df)))"

section \<open>Growth data\<close>

record 'c growth_record =
  individual_id :: "'c option"
  leaf_count :: "real option"
  shoot_length :: "real option"
  root_length :: "real option"
  fresh_weight :: "real option"
  g_school :: ustr
  g_ec_goal :: real

record 'k growth_summary =
  gs_ec_goal :: 'k
  avg_fresh_weight :: "real option"
  avg_leaf_count :: "real option"
  avg_shoot_length :: "real option"
  gs_count :: nat

text \<open>
  Lines 136-143 on one parsed sheet of five columns. The \<open>individual_id\<close> column is kept
  as it was read, so an empty cell stays missing.
\<close>

definition growth_rows ::
  "('c, 't) library \<Rightarrow> ustr \<Rightarrow> real \<Rightarrow> 'c frame \<Rightarrow> 'c growth_record list" where
  "growth_rows L sheet_name goal df =
     map (\<lambda>r.
           \<lparr>individual_id = (if isna L (r ! 0) then None else Some (r ! 0)),
            leaf_count = to_numeric L (r ! 1),
            shoot_length = to_numeric L (r ! 2),
            root_length = to_numeric L (r ! 3),
            fresh_weight = to_numeric L (r ! 4),
            g_school = sheet_name,
            g_ec_goal = goal\<rparr>) (rows df)"

text \<open>\<^verbatim>\<open>xls.parse(sheet_name)\<close>: the sheet of exactly that name, an error when there is none.\<close>

definition parse_sheet :: "'c workbook \<Rightarrow> ustr \<Rightarrow> error + 'c frame" where
  "parse_sheet xls sheet_name =
     (case map_of xls sheet_name of
        None \<Rightarrow> Inl (SheetNotFound sheet_name)
      | Some res \<Rightarrow> res)"

text \<open>The body of the loop over the sheet names (lines 131-146).\<close>

definition growth_sheet ::
  "('c, 't) library \<Rightarrow> 'c workbook \<Rightarrow> ustr \<Rightarrow> 'c growth_record list outcome" where
  "growth_sheet L xls sheet_name =
     (case map_of EC_MAPPING sheet_name of
        None \<Rightarrow> Skipped
      | Some cfg \<Rightarrow>
          (case parse_sheet xls sheet_name of
             Inl e \<Rightarrow> Failed (SheetWarning sheet_name e)
           | Inr df \<Rightarrow>
               if length (columns df) \<noteq> 5
               then Failed (SheetWarning sheet_name (LengthMismatch (length (columns df)) 5))
               else Loaded (growth_rows L sheet_name (EC_goal cfg) df)))"

text \<open>The aggregation of lines 155-160, its key still a number.\<close>

definition growth_agg :: "'c growth_record list \<Rightarrow> real growth_summary list" where
  "growth_agg growth_df =
     map (\<lambda>(k, g).
           \<lparr>gs_ec_goal = k,
            avg_fresh_weight = mean_agg (map fresh_weight g),
            avg_leaf_count = mean_agg (map leaf_count g),
            avg_shoot_length = mean_agg (map shoot_length g),
            gs_count = count_agg (map individual_id g)\<rparr>)
         (groupby g_ec_goal growth_df)"

subsection \<open>The EC label\<close>

definition digit_char :: "nat \<Rightarrow> char" where
  "digit_char d = ''0123456789'' ! d"

fun digits :: "nat \<Rightarrow> string" where
  "digits n = (if n < 10 then [digit_char n] else digits (n div 10) @ [digit_char (n mod 10)])"

declare digits.simps [simp del]

text \<open>
  \<^verbatim>\<open>str\<close> of a float (what \<^verbatim>\<open>astype(str)\<close> applies to each cell), on the floats with a whole
  value from 0 up to \<open>10^16\<close>: the decimal digits, then \<^verbatim>\<open>.0\<close>. Other floats are outside the
  modelled fragment (\<open>None\<close>).
\<close>

definition float_str :: "real \<Rightarrow> string option" where
  "float_str x =
     (if 0 \<le> x \<and> x < 10 ^ 16 \<and> real_of_int \<lfloor>x\<rfloor> = x
      then Some (digits (nat \<lfloor>x\<rfloor>) @ ''.0'')
      else None)"

text \<open>Line 161: the key of a summary row becomes its text followed by \<^verbatim>\<open>' EC'\<close>.\<close>

definition ec_label :: "real \<Rightarrow> string option" where
  "ec_label x = map_option (\<lambda>s. s @ '' EC'') (float_str x)"

definition label_row :: "real growth_summary \<Rightarrow> string option growth_summary" where
  "label_row s =
     \<lparr>gs_ec_goal = ec_label (gs_ec_goal s),
      avg_fresh_weight = avg_fresh_weight s,
      avg_leaf_count = avg_leaf_count s,
      avg_shoot_length = avg_shoot_length s,
      gs_count = gs_count s\<rparr>"

definition growth_summary_of :: "'c growth_record list \<Rightarrow> string option growth_summary list" where
  "growth_summary_of growth_df = map label_row (growth_agg growth_df)"

text \<open>
  \<^verbatim>\<open>load_and_preprocess_growth_data\<close>: the first workbook whose normalised name has the
  marker, its sheets under their normalised names, then the summary.
\<close>

definition is_growth_file :: "('c, 't) library \<Rightarrow> 'c dir_entry \<Rightarrow> bool" where
  "is_growth_file L p \<longleftrightarrow>
     is_file p \<and> str_lower (path_suffix (path_name p)) = dot_xlsx
     \<and> str_contains growth_marker (normalize_NFC L (path_name p))"

definition load_and_preprocess_growth_data ::
  "('c, 't) library \<Rightarrow> 'c dir_entry list
     \<Rightarrow> notice list \<times> 'c growth_record list \<times> string option growth_summary list" where
  "load_and_preprocess_growth_data L data_dir =
     (case find (is_growth_file L) data_dir of
        None \<Rightarrow> ([NoGrowthFile], [], [])
      | Some xlsx_path \<Rightarrow>
          (case ExcelFile xlsx_path of
             Inl e \<Rightarrow> ([WorkbookError e], [], [])
           | Inr xls \<Rightarrow>
               (let sheet_names = map (\<lambda>(nm, _). normalize_NFC L nm) xls;
                    (ns, all_growth_data) = collect (growth_sheet L xls) sheet_names
                in if all_growth_data = [] then (ns @ [NoGrowthSheets], [], [])
                   else (let growth_df = concat all_growth_data
                         in (ns, growth_df, growth_summary_of growth_df)))))"

text \<open>
  \<^verbatim>\<open>float(s)\<close> on the plain decimal literals: digits, or digits, a dot and digits.
  \<open>None\<close> stands for every other text.
\<close>

definition digit_val :: "char \<Rightarrow> nat option" where
  "digit_val c =
     (case filter (\<lambda>d. digit_char d = c) [0..<10] of [] \<Rightarrow> None | d # _ \<Rightarrow> Some d)"

fun nat_of_digits :: "nat \<Rightarrow> string \<Rightarrow> nat option" where
  "nat_of_digits acc [] = Some acc"
| "nat_of_digits acc (c # cs) =
     (case digit_val c of None \<Rightarrow> None | Some d \<Rightarrow> nat_of_digits (10 * acc + d) cs)"

definition float_of_str :: "string \<Rightarrow> real option" where
  "float_of_str s =
     (let ip = takeWhile (\<lambda>c. c \<noteq> CHR ''.'') s;
          rest = dropWhile (\<lambda>c. c \<noteq> CHR ''.'') s
      in if ip = [] then None
         else (case rest of
                 [] \<Rightarrow> map_option real (nat_of_digits 0 ip)
               | _ # fp \<Rightarrow>
                   if fp = [] then None
                   else (case (nat_of_digits 0 ip, nat_of_digits 0 fp) of
                           (Some i, Some f) \<Rightarrow> Some (real i + real f / 10 ^ length fp)
                         | _ \<Rightarrow> None)))"

text \<open>
  Line 386 (and 419): the number before the first space of the label, then the first
  school of the registry with that target. \<open>None\<close> where the source raises.
\<close>

definition school_of_label :: "string \<Rightarrow> ustr option" where
  "school_of_label lbl =
     (case float_of_str (split_first CHR '' '' lbl) of
        None \<Rightarrow> None
      | Some x \<Rightarrow>
          (case [s. (s, d) \<leftarrow> EC_MAPPING, EC_goal d = x] of
             [] \<Rightarrow> None
           | s # _ \<Rightarrow> Some s))"

text \<open>
  Line 220 of the overview tab: the number of plants of a school, the number of its rows
  in the unified table (0 when the table is empty).
\<close>

definition growth_count :: "'c growth_record list \<Rightarrow> ustr \<Rightarrow> nat" where
  "growth_count growth_df s = length [r \<leftarrow> growth_df. g_school r = s]"

section \<open>Tables shown and downloaded\<close>

text \<open>
  A table as its column labels and its rows of cells. The two unified tables have the
  five renamed columns followed by \<open>school\<close> and \<open>ec_goal\<close>.
\<close>

datatype ('c, 't) cell = TimeCell "'t option" | NumCell "real option" | StrCell ustr | RawCell "'c option"

type_synonym ('c, 't) table = "string list \<times> ('c, 't) cell list list"

definition env_table :: "'t env_record list \<Rightarrow> ('c, 't) table" where
  "env_table df =
     ([''time'', ''temperature'', ''humidity'', ''ph'', ''ec'', ''school'', ''ec_goal''],
      map (\<lambda>r. [TimeCell (time r), NumCell (temperature r), NumCell (humidity r),
                 NumCell (ph r), NumCell (ec r), StrCell (school r),
                 NumCell (Some (ec_goal r))]) df)"

definition growth_table :: "'c growth_record list \<Rightarrow> ('c, 't) table" where
  "growth_table df =
     ([''individual_id'', ''leaf_count'', ''shoot_length'', ''root_length'', ''fresh_weight'',
       ''school'', ''ec_goal''],
      map (\<lambda>r. [RawCell (individual_id r), NumCell (leaf_count r), NumCell (shoot_length r),
                 NumCell (root_length r), NumCell (fresh_weight r), StrCell (g_school r),
                 NumCell (Some (g_ec_goal r))]) df)"

text \<open>\<^verbatim>\<open>df.drop(columns=names, errors='ignore')\<close>.\<close>

definition drop_columns :: "string list \<Rightarrow> ('c, 't) table \<Rightarrow> ('c, 't) table" where
  "drop_columns names tb =
     (filter (\<lambda>l. l \<notin> set names) (fst tb),
      map (\<lambda>r. map snd (filter (\<lambda>(l, c). l \<notin> set names) (zip (fst tb) r))) (snd tb))"

text \<open>
  Lines 191-196: the sidebar's choice, \<open>None\<close> for the entry that stands for all schools.
\<close>

definition filter_env :: "ustr option \<Rightarrow> 't env_record list \<Rightarrow> 't env_record list" where
  "filter_env selected_school df =
     (case selected_school of None \<Rightarrow> df | Some s \<Rightarrow> filter (\<lambda>r. school r = s) df)"

definition filter_growth :: "ustr option \<Rightarrow> 'c growth_record list \<Rightarrow> 'c growth_record list" where
  "filter_growth selected_school df =
     (case selected_school of None \<Rightarrow> df | Some s \<Rightarrow> filter (\<lambda>r. g_school r = s) df)"

text \<open>
  The table shown in each expander (lines 350 and 516) and the table written to each
  download (lines 357-359 and 522): \<^verbatim>\<open>to_csv\<close> and \<^verbatim>\<open>to_excel\<close> with \<^verbatim>\<open>index=False\<close> write
  every column of the frame they are called on.
\<close>

definition env_shown :: "'t env_record list \<Rightarrow> ('c, 't) table" where
  "env_shown filtered_env_df = drop_columns [''ec_goal''] (env_table filtered_env_df)"

definition env_download :: "'t env_record list \<Rightarrow> ('c, 't) table" where
  "env_download filtered_env_df = env_table filtered_env_df"

definition growth_shown :: "'c growth_record list \<Rightarrow> ('c, 't) table" where
  "growth_shown filtered_growth_df = drop_columns [''ec_goal''] (growth_table filtered_growth_df)"

definition growth_download :: "'c growth_record list \<Rightarrow> ('c, 't) table" where
  "growth_download filtered_growth_df = growth_table filtered_growth_df"

section \<open>Notions used in the statements\<close>

text \<open>The distinct elements of a list in the order in which each is first met.\<close>

definition first_occurrence_order :: "'a list \<Rightarrow> 'a list" where
  "first_occurrence_order xs = rev (remdups (rev xs))"

text \<open>The arithmetic mean of a list of values; an empty list has none.\<close>

definition arithmetic_mean :: "real list \<Rightarrow> real option" where
  "arithmetic_mean vs = (if vs = [] then None else Some (sum_list vs / real (length vs)))"

text \<open>
  The aggregation of lines 88-95 applied once more, to a summary it produced: grouped by
  the same key, every statistic computed from the summary column that holds it.
\<close>

definition env_reaggregate :: "env_summary list \<Rightarrow> env_summary list" where
  "env_reaggregate summary =
     map (\<lambda>(k, g).
           \<lparr>s_school = k,
            avg_temp = mean_agg (map avg_temp g),
            avg_humidity = mean_agg (map avg_humidity g),
            avg_ph = mean_agg (map avg_ph g),
            avg_ec = mean_agg (map avg_ec g),
            s_ec_goal = first_agg (map s_ec_goal g),
            count = count_agg (map (\<lambda>s. Some (count s)) g)\<rparr>)
         (groupby s_school summary)"

text \<open>The same for the aggregation of lines 155-160.\<close>

definition growth_reaggregate ::
  "('k::linorder) growth_summary list \<Rightarrow> 'k growth_summary list" where
  "growth_reaggregate summary =
     map (\<lambda>(k, g).
           \<lparr>gs_ec_goal = k,
            avg_fresh_weight = mean_agg (map avg_fresh_weight g),
            avg_leaf_count = mean_agg (map avg_leaf_count g),
            avg_shoot_length = mean_agg (map avg_shoot_length g),
            gs_count = count_agg (map (\<lambda>s. Some (gs_count s)) g)\<rparr>)
         (groupby gs_ec_goal summary)"

section \<open>Sample inputs\<close>

text \<open>
  A small instance of the library over text cells: names already normalised, a timestamp
  is a non-empty run of digits, a number is a plain decimal literal, the empty cell is
  missing.
\<close>

definition sample_library :: "(string, nat) library" where
  "sample_library =
     \<lparr>normalize_NFC = (\<lambda>s. s),
      to_datetime = (\<lambda>c. if c = [] then None else nat_of_digits 0 c),
      to_numeric = float_of_str,
      isna = (\<lambda>c. c = [])\<rparr>"

definition five_labels :: "ustr list" where
  "five_labels = [[97], [98], [99], [100], [101]]"

definition env_file_name :: "ustr \<Rightarrow> ustr" where
  "env_file_name s = s @ [95] @ env_marker @ dot_csv"

text \<open>
  Four readings of one school, the second with a timestamp that does not parse, the
  third with two numeric cells that do not parse.
\<close>

definition songdo_frame :: "string frame" where
  "songdo_frame =
     \<lparr>columns = five_labels,
      rows = [[''1'', ''10'', ''50'', ''6'', ''1''],
              [''soon'', ''99'', ''99'', ''9'', ''9''],
              [''2'', ''n/a'', ''60'', ''6'', []],
              [''3'', ''20'', ''70'', ''6'', ''2'']]\<rparr>"

definition songdo_csv :: "string dir_entry" where
  "songdo_csv =
     \<lparr>path_name = env_file_name songdo, is_file = True,
      read_csv = Inr songdo_frame,
      ExcelFile = Inl (ReadFailure ''not a workbook'')\<rparr>"

definition haneul_csv :: "string dir_entry" where
  "haneul_csv =
     \<lparr>path_name = env_file_name haneul, is_file = True,
      read_csv = Inr \<lparr>columns = five_labels,
                        rows = [[''7'', ''30'', ''40'', ''7'', ''2'']]\<rparr>,
      ExcelFile = Inl (ReadFailure ''not a workbook'')\<rparr>"

text \<open>A file of a registered school with four columns only.\<close>

definition ara_frame :: "string frame" where
  "ara_frame = \<lparr>columns = [[97], [98], [99], [100]], rows = [[''1'', ''10'', ''50'', ''6'']]\<rparr>"

definition ara_csv :: "string dir_entry" where
  "ara_csv =
     \<lparr>path_name = env_file_name ara, is_file = True,
      read_csv = Inr ara_frame,
      ExcelFile = Inl (ReadFailure ''not a workbook'')\<rparr>"

text \<open>A file of a registered school none of whose timestamps parses.\<close>

definition dongsan_csv :: "string dir_entry" where
  "dongsan_csv =
     \<lparr>path_name = env_file_name dongsan, is_file = True,
      read_csv = Inr \<lparr>columns = five_labels,
                        rows = [[''later'', ''10'', ''50'', ''6'', ''8'']]\<rparr>,
      ExcelFile = Inl (ReadFailure ''not a workbook'')\<rparr>"

text \<open>A file whose name has the marker but no registered school in front of it.\<close>

definition other_csv :: "string dir_entry" where
  "other_csv =
     \<lparr>path_name = env_file_name [44592, 53440], is_file = True,
      read_csv = Inr \<lparr>columns = five_labels,
                        rows = [[''1'', ''10'', ''50'', ''6'', ''1'']]\<rparr>,
      ExcelFile = Inl (ReadFailure ''not a workbook'')\<rparr>"

text \<open>
  A workbook with a sheet for two schools and a third sheet of another name; one plant
  of the second sheet has no identifier, one has no fresh weight.
\<close>

definition sample_xlsx :: "string dir_entry" where
  "sample_xlsx =
     \<lparr>path_name = growth_marker @ dot_xlsx, is_file = True,
      read_csv = Inl (ReadFailure ''not a csv''),
      ExcelFile = Inr
        [(haneul, Inr \<lparr>columns = five_labels,
                         rows = [[''h1'', ''4'', ''30'', ''12'', ''5'']]\<rparr>),
         (songdo, Inr \<lparr>columns = five_labels,
                         rows = [[''s1'', ''3'', ''20'', ''10'', ''2''],
                                 [[], ''5'', ''25'', ''11'', ''3''],
                                 [''s3'', ''4'', ''24'', ''11'', ''-'']]\<rparr>),
         ([44592, 53440], Inr \<lparr>columns = five_labels,
                                 rows = [[''x1'', ''1'', ''1'', ''1'', ''1'']]\<rparr>)]\<rparr>"

text \<open>The directory of the samples, in the order in which it is listed.\<close>

definition sample_dir :: "string dir_entry list" where
  "sample_dir = [haneul_csv, ara_csv, other_csv, songdo_csv, sample_xlsx]"

text \<open>The two unified tables that the loaders build from it.\<close>

definition sample_env_df :: "nat env_record list" where
  "sample_env_df =
     [\<lparr>time = Some 7, temperature = Some 30, humidity = Some 40, ph = Some 7,
       ec = Some 2, school = haneul, ec_goal = 2\<rparr>,
      \<lparr>time = Some 1, temperature = Some 10, humidity = Some 50, ph = Some 6,
       ec = Some 1, school = songdo, ec_goal = 1\<rparr>,
      \<lparr>time = Some 2, temperature = None, humidity = Some 60, ph = Some 6,
       ec = None, school = songdo, ec_goal = 1\<rparr>,
      \<lparr>time = Some 3, temperature = Some 20, humidity = Some 70, ph = Some 6,
       ec = Some 2, school = songdo, ec_goal = 1\<rparr>]"

definition sample_growth_df :: "string growth_record list" where
  "sample_growth_df =
     [\<lparr>individual_id = Some ''h1'', leaf_count = Some 4, shoot_length = Some 30,
       root_length = Some 12, fresh_weight = Some 5, g_school = haneul, g_ec_goal = 2\<rparr>,
      \<lparr>individual_id = Some ''s1'', leaf_count = Some 3, shoot_length = Some 20,
       root_length = Some 10, fresh_weight = Some 2, g_school = songdo, g_ec_goal = 1\<rparr>,
      \<lparr>individual_id = None, leaf_count = Some 5, shoot_length = Some 25,
       root_length = Some 11, fresh_weight = Some 3, g_school = songdo, g_ec_goal = 1\<rparr>,
      \<lparr>individual_id = Some ''s3'', leaf_count = Some 4, shoot_length = Some 24,
       root_length = Some 11, fresh_weight = None, g_school = songdo, g_ec_goal = 1\<rparr>]"

definition sample_env_summary :: "env_summary list" where
  "sample_env_summary =
     [\<lparr>s_school = songdo, avg_temp = Some 15, avg_humidity = Some 60, avg_ph = Some 6,
       avg_ec = Some (3 / 2), s_ec_goal = Some 1, count = 3\<rparr>,
      \<lparr>s_school = haneul, avg_temp = Some 30, avg_humidity = Some 40, avg_ph = Some 7,
       avg_ec = Some 2, s_ec_goal = Some 2, count = 1\<rparr>]"

definition sample_growth_agg :: "real growth_summary list" where
  "sample_growth_agg =
     [\<lparr>gs_ec_goal = 1, avg_fresh_weight = Some (5 / 2), avg_leaf_count = Some 4,
       avg_shoot_length = Some 23, gs_count = 2\<rparr>,
      \<lparr>gs_ec_goal = 2, avg_fresh_weight = Some 5, avg_leaf_count = Some 4,
       avg_shoot_length = Some 30, gs_count = 1\<rparr>]"

section \<open>Basic facts\<close>

lemma groupby_keys: "map fst (groupby key df) = sort (remdups (map key df))"
  by (simp add: groupby_def comp_def)

lemma groupby_mem:
  "(k, g) \<in> set (groupby key df) \<longleftrightarrow> k \<in> key ` set df \<and> g = filter (\<lambda>r. key r = k) df"
  by (auto simp: groupby_def)

lemma mean_agg_eq: "mean_agg xs = arithmetic_mean (notna xs)"
  by (simp add: mean_agg_def arithmetic_mean_def split: list.splits)

lemma env_summary_mem:
  "s \<in> set (env_summary_of df) \<Longrightarrow>
     s_school s \<in> school ` set df \<and>
     avg_temp s = mean_agg (map temperature (filter (\<lambda>r. school r = s_school s) df)) \<and>
     avg_humidity s = mean_agg (map humidity (filter (\<lambda>r. school r = s_school s) df)) \<and>
     avg_ph s = mean_agg (map ph (filter (\<lambda>r. school r = s_school s) df)) \<and>
     avg_ec s = mean_agg (map ec (filter (\<lambda>r. school r = s_school s) df)) \<and>
     s_ec_goal s =
       first_agg (map (\<lambda>r. Some (ec_goal r)) (filter (\<lambda>r. school r = s_school s) df)) \<and>
     count s = count_agg (map time (filter (\<lambda>r. school r = s_school s) df))"
  by (auto simp: env_summary_of_def groupby_mem)

lemma growth_agg_mem:
  "t \<in> set (growth_agg df) \<Longrightarrow>
     gs_ec_goal t \<in> g_ec_goal ` set df \<and>
     avg_fresh_weight t =
       mean_agg (map fresh_weight (filter (\<lambda>r. g_ec_goal r = gs_ec_goal t) df)) \<and>
     avg_leaf_count t =
       mean_agg (map leaf_count (filter (\<lambda>r. g_ec_goal r = gs_ec_goal t) df)) \<and>
     avg_shoot_length t =
       mean_agg (map shoot_length (filter (\<lambda>r. g_ec_goal r = gs_ec_goal t) df)) \<and>
     gs_count t = count_agg (map individual_id (filter (\<lambda>r. g_ec_goal r = gs_ec_goal t) df))"
  by (auto simp: growth_agg_def groupby_mem)

subsection \<open>The samples, evaluated\<close>

lemmas sample_names =
  env_file_name_def songdo_def haneul_def ara_def dongsan_def env_marker_def growth_marker_def
  dot_csv_def dot_xlsx_def five_labels_def

lemmas sample_eval =
  path_suffix_def rfind_def str_lower_def split_first_def EC_MAPPING_def
  digit_val_def digit_char_def float_of_str_def upt_rec Let_def

lemma songdo_csv_loaded:
  "env_file sample_library songdo_csv = Loaded (tl sample_env_df)"
  by (simp add: env_file_def env_rows_def sample_library_def songdo_csv_def songdo_frame_def
      sample_env_df_def sample_names sample_eval)

lemma haneul_csv_loaded:
  "env_file sample_library haneul_csv = Loaded [hd sample_env_df]"
  by (simp add: env_file_def env_rows_def sample_library_def haneul_csv_def sample_env_df_def
      sample_names sample_eval)

lemma ara_csv_failed:
  "env_file sample_library ara_csv =
     Failed (EnvFileError (env_file_name ara) (LengthMismatch 4 5))"
  by (simp add: env_file_def sample_library_def ara_csv_def ara_frame_def sample_names
      sample_eval)

lemma dongsan_csv_loaded: "env_file sample_library dongsan_csv = Loaded []"
  by (simp add: env_file_def env_rows_def sample_library_def dongsan_csv_def
      sample_names sample_eval)

lemma other_csv_skipped: "env_file sample_library other_csv = Skipped"
  by (simp add: env_file_def sample_library_def other_csv_def sample_names sample_eval)

lemma sample_xlsx_skipped: "env_file sample_library sample_xlsx = Skipped"
  by (simp add: env_file_def sample_library_def sample_xlsx_def sample_names sample_eval)

lemma sample_env_summary_eq: "env_summary_of sample_env_df = sample_env_summary"
  by (simp add: env_summary_of_def groupby_def sample_env_df_def sample_env_summary_def
      mean_agg_def count_agg_def first_agg_def notna_def songdo_def haneul_def)

lemma sample_growth_agg_eq: "growth_agg sample_growth_df = sample_growth_agg"
  by (simp add: growth_agg_def groupby_def sample_growth_df_def sample_growth_agg_def
      mean_agg_def count_agg_def notna_def)

lemma sample_env_loaded:
  "load_and_preprocess_env_data sample_library sample_dir =
     ([EnvFileError (env_file_name ara) (LengthMismatch 4 5)], sample_env_df, sample_env_summary)"
proof -
  have "collect (env_file sample_library) sample_dir =
          ([EnvFileError (env_file_name ara) (LengthMismatch 4 5)],
           [[hd sample_env_df], tl sample_env_df])"
    by (simp add: sample_dir_def songdo_csv_loaded haneul_csv_loaded ara_csv_failed
        other_csv_skipped sample_xlsx_skipped)
  moreover have "concat [[hd sample_env_df], tl sample_env_df] = sample_env_df"
    by (simp add: sample_env_df_def)
  ultimately show ?thesis
    by (simp add: load_and_preprocess_env_data_def sample_env_summary_eq)
qed

section \<open>The means of the summaries\<close>

text \<open>
  Claim C1. In every row of the environment summary and of the growth aggregation, each
  mean is the arithmetic mean of the values of its column that are present in the rows
  of the group, the rows of the table that carry the group's key: missing cells are left
  out of the sum and of the divisor (a column with nothing present has no mean). For the
  cells 10, missing, 20 the mean is 15.
\<close>

theorem means_exclude_missing:
  assumes "s \<in> set (env_summary_of env_df)" and "t \<in> set (growth_agg growth_df)"
  shows "avg_temp s =
           arithmetic_mean (notna (map temperature [r \<leftarrow> env_df. school r = s_school s]))
       \<and> avg_humidity s =
           arithmetic_mean (notna (map humidity [r \<leftarrow> env_df. school r = s_school s]))
       \<and> avg_ph s = arithmetic_mean (notna (map ph [r \<leftarrow> env_df. school r = s_school s]))
       \<and> avg_ec s = arithmetic_mean (notna (map ec [r \<leftarrow> env_df. school r = s_school s]))
       \<and> avg_fresh_weight t =
           arithmetic_mean
             (notna (map fresh_weight [r \<leftarrow> growth_df. g_ec_goal r = gs_ec_goal t]))
       \<and> avg_leaf_count t =
           arithmetic_mean
             (notna (map leaf_count [r \<leftarrow> growth_df. g_ec_goal r = gs_ec_goal t]))
       \<and> avg_shoot_length t =
           arithmetic_mean
             (notna (map shoot_length [r \<leftarrow> growth_df. g_ec_goal r = gs_ec_goal t]))
       \<and> mean_agg [Some 10, None, Some 20] = Some 15"
proof -
  have "mean_agg [Some 10, None, Some 20] = Some 15"
    by (simp add: mean_agg_def notna_def)
  with env_summary_mem [OF assms(1)] growth_agg_mem [OF assms(2)] show ?thesis
    by (simp add: mean_agg_eq)
qed

theorem means_exclude_missing_witness:
  "hd sample_env_summary \<in> set (env_summary_of sample_env_df)
   \<and> hd sample_growth_agg \<in> set (growth_agg sample_growth_df)
   \<and> avg_temp (hd sample_env_summary) = Some 15
   \<and> arithmetic_mean
        (notna (map temperature
           [r \<leftarrow> sample_env_df. school r = s_school (hd sample_env_summary)])) = Some 15
   \<and> avg_fresh_weight (hd sample_growth_agg) = Some (5 / 2)
   \<and> arithmetic_mean
        (notna (map fresh_weight
           [r \<leftarrow> sample_growth_df. g_ec_goal r = gs_ec_goal (hd sample_growth_agg)]))
       = Some (5 / 2)"
proof -
  have a: "hd sample_env_summary \<in> set (env_summary_of sample_env_df)"
    by (simp add: sample_env_summary_eq) (simp add: sample_env_summary_def)
  have b: "hd sample_growth_agg \<in> set (growth_agg sample_growth_df)"
    by (simp add: sample_growth_agg_eq) (simp add: sample_growth_agg_def)
  from means_exclude_missing [OF a b] a b show ?thesis
    by (simp add: sample_env_summary_def sample_growth_agg_def)
qed

section \<open>The environment loader\<close>

lemma collect_append:
  "collect f (xs @ ys) =
     (fst (collect f xs) @ fst (collect f ys), snd (collect f xs) @ snd (collect f ys))"
  by (induction xs) (auto split: prod.splits outcome.splits)

lemma collect_loaded: "set (snd (collect f xs)) = {df. \<exists>p \<in> set xs. f p = Loaded df}"
  by (induction xs) (auto split: prod.splits outcome.splits)

lemma collect_failed: "set (fst (collect f xs)) = {n. \<exists>p \<in> set xs. f p = Failed n}"
  by (induction xs) (auto split: prod.splits outcome.splits)

lemma env_file_Failed: "env_file L p = Failed n \<Longrightarrow> \<exists>nm e. n = EnvFileError nm e"
  by (auto simp: env_file_def Let_def split: if_splits option.splits sum.splits)

lemma env_file_Loaded:
  assumes "env_file L p = Loaded recs"
  obtains cfg df where
    "is_file p" "str_lower (path_suffix (path_name p)) = dot_csv"
    "str_contains env_marker (normalize_NFC L (path_name p))"
    "map_of EC_MAPPING (split_first 95 (normalize_NFC L (path_name p))) = Some cfg"
    "read_csv p = Inr df" "length (columns df) = 5"
    "recs = env_rows L (split_first 95 (normalize_NFC L (path_name p))) (EC_goal cfg) df"
  using assms
  by (auto simp: env_file_def Let_def split: if_splits option.splits sum.splits)

lemma env_rows_eq:
  "env_rows L nm goal df =
     map (\<lambda>r. \<lparr>time = to_datetime L (r ! 0), temperature = to_numeric L (r ! 1),
                humidity = to_numeric L (r ! 2), ph = to_numeric L (r ! 3),
                ec = to_numeric L (r ! 4), school = nm, ec_goal = goal\<rparr>)
         [r \<leftarrow> rows df. to_datetime L (r ! 0) \<noteq> None]"
  by (simp add: env_rows_def Let_def filter_map comp_def)

lemma env_summary_of_Nil: "env_summary_of [] = []"
  by (simp add: env_summary_of_def groupby_def)

lemma env_load_tables:
  assumes "load_and_preprocess_env_data L data_dir = (ns, env_df, summary)"
  shows "env_df = concat (snd (collect (env_file L) data_dir))"
    and "summary = env_summary_of env_df"
  using assms
  by (auto simp: load_and_preprocess_env_data_def Let_def env_summary_of_Nil
      split: prod.splits if_splits)

text \<open>
  Claim C2. For a file that the environment loader reads, the records it adds to the
  unified table are, in order, the rows of the parsed file whose timestamp cell parses:
  a row whose timestamp does not parse adds nothing, and a row whose timestamp parses is
  kept with each numeric field equal to the coercion of its cell, so missing (not zero)
  where the cell does not parse.
\<close>

theorem timestamp_decides_row:
  assumes "load_and_preprocess_env_data L data_dir = (ns, env_df, summary)"
    and "p \<in> set data_dir" and "env_file L p = Loaded recs" and "read_csv p = Inr df"
  shows "set recs \<subseteq> set env_df
       \<and> map time recs =
           map (\<lambda>r. to_datetime L (r ! 0)) [r \<leftarrow> rows df. to_datetime L (r ! 0) \<noteq> None]
       \<and> map temperature recs =
           map (\<lambda>r. to_numeric L (r ! 1)) [r \<leftarrow> rows df. to_datetime L (r ! 0) \<noteq> None]
       \<and> map humidity recs =
           map (\<lambda>r. to_numeric L (r ! 2)) [r \<leftarrow> rows df. to_datetime L (r ! 0) \<noteq> None]
       \<and> map ph recs =
           map (\<lambda>r. to_numeric L (r ! 3)) [r \<leftarrow> rows df. to_datetime L (r ! 0) \<noteq> None]
       \<and> map ec recs =
           map (\<lambda>r. to_numeric L (r ! 4)) [r \<leftarrow> rows df. to_datetime L (r ! 0) \<noteq> None]"
proof -
  from assms(2,3) have "recs \<in> set (snd (collect (env_file L) data_dir))"
    by (auto simp: collect_loaded)
  with env_load_tables(1) [OF assms(1)] have "set recs \<subseteq> set env_df"
    by auto
  moreover from assms(3,4) obtain nm goal where "recs = env_rows L nm goal df"
    by (auto elim!: env_file_Loaded)
  ultimately show ?thesis
    by (simp add: env_rows_eq comp_def)
qed

theorem timestamp_decides_row_witness:
  "load_and_preprocess_env_data sample_library sample_dir =
     ([EnvFileError (env_file_name ara) (LengthMismatch 4 5)], sample_env_df, sample_env_summary)
   \<and> songdo_csv \<in> set sample_dir
   \<and> env_file sample_library songdo_csv = Loaded (tl sample_env_df)
   \<and> read_csv songdo_csv = Inr songdo_frame
   \<and> length (rows songdo_frame) = 4
   \<and> set (tl sample_env_df) \<subseteq> set sample_env_df
   \<and> map time (tl sample_env_df) = [Some 1, Some 2, Some 3]
   \<and> map temperature (tl sample_env_df) =
        map (\<lambda>r. to_numeric sample_library (r ! 1))
          [r \<leftarrow> rows songdo_frame. to_datetime sample_library (r ! 0) \<noteq> None]
   \<and> map temperature (tl sample_env_df) = [Some 10, None, Some 20]
   \<and> map ec (tl sample_env_df) = [Some 1, None, Some 2]"
proof -
  have a: "songdo_csv \<in> set sample_dir"
    by (simp add: sample_dir_def)
  have b: "read_csv songdo_csv = Inr songdo_frame"
    by (simp add: songdo_csv_def)
  from timestamp_decides_row [OF sample_env_loaded a songdo_csv_loaded b]
    sample_env_loaded a songdo_csv_loaded b
  show ?thesis
    by (simp add: sample_env_df_def songdo_frame_def)
qed

lemma env_load_collect:
  "load_and_preprocess_env_data L data_dir =
     (let (ns, all_env_data) = collect (env_file L) data_dir in
      (if all_env_data = [] then ns @ [NoEnvData] else ns,
       concat all_env_data, env_summary_of (concat all_env_data)))"
  by (simp add: load_and_preprocess_env_data_def Let_def env_summary_of_Nil split: prod.splits)

text \<open>
  Claim C10. A matched file of a registered school whose parsed table does not have
  exactly five columns fails at the renaming: it is reported under its name, the two
  tables are what they would be without the file, and only a table of five columns is
  ever loaded.
\<close>

theorem wrong_width_file_is_reported:
  assumes "is_file p" and "str_lower (path_suffix (path_name p)) = dot_csv"
    and "str_contains env_marker (normalize_NFC L (path_name p))"
    and "map_of EC_MAPPING (split_first 95 (normalize_NFC L (path_name p))) = Some cfg"
    and "read_csv p = Inr df" and "length (columns df) \<noteq> 5"
  shows "env_file L p =
           Failed (EnvFileError (normalize_NFC L (path_name p))
                     (LengthMismatch (length (columns df)) 5))
       \<and> EnvFileError (normalize_NFC L (path_name p)) (LengthMismatch (length (columns df)) 5)
           \<in> set (fst (load_and_preprocess_env_data L (before @ p # after)))
       \<and> snd (load_and_preprocess_env_data L (before @ p # after)) =
           snd (load_and_preprocess_env_data L (before @ after))
       \<and> (\<forall>q recs d. env_file L q = Loaded recs \<longrightarrow> read_csv q = Inr d
              \<longrightarrow> length (columns d) = 5)"
proof -
  have f: "env_file L p =
             Failed (EnvFileError (normalize_NFC L (path_name p))
                       (LengthMismatch (length (columns df)) 5))"
    using assms by (simp add: env_file_def Let_def)
  have c: "collect (env_file L) (before @ p # after) =
             (fst (collect (env_file L) before)
                @ EnvFileError (normalize_NFC L (path_name p))
                    (LengthMismatch (length (columns df)) 5)
                # fst (collect (env_file L) after),
              snd (collect (env_file L) before) @ snd (collect (env_file L) after))"
    by (simp add: collect_append [of _ before] f split: prod.splits)
  have "\<forall>q recs d. env_file L q = Loaded recs \<longrightarrow> read_csv q = Inr d
          \<longrightarrow> length (columns d) = 5"
    by (auto elim!: env_file_Loaded)
  with f c show ?thesis
    by (simp add: env_load_collect collect_append [of _ before after])
qed

theorem wrong_width_file_is_reported_witness:
  "is_file ara_csv \<and> str_lower (path_suffix (path_name ara_csv)) = dot_csv
   \<and> str_contains env_marker (normalize_NFC sample_library (path_name ara_csv))
   \<and> map_of EC_MAPPING (split_first 95 (normalize_NFC sample_library (path_name ara_csv)))
       = Some \<lparr>EC_goal = 4, color = ''#ff7f0e''\<rparr>
   \<and> read_csv ara_csv = Inr ara_frame \<and> length (columns ara_frame) = 4
   \<and> env_file sample_library ara_csv =
       Failed (EnvFileError (env_file_name ara) (LengthMismatch 4 5))
   \<and> EnvFileError (env_file_name ara) (LengthMismatch 4 5)
       \<in> set (fst (load_and_preprocess_env_data sample_library
                     ([haneul_csv] @ ara_csv # [other_csv, songdo_csv, sample_xlsx])))
   \<and> snd (load_and_preprocess_env_data sample_library
             ([haneul_csv] @ ara_csv # [other_csv, songdo_csv, sample_xlsx])) =
       snd (load_and_preprocess_env_data sample_library
             ([haneul_csv] @ [other_csv, songdo_csv, sample_xlsx]))
   \<and> length (columns songdo_frame) = 5"
proof -
  have a: "is_file ara_csv" "str_lower (path_suffix (path_name ara_csv)) = dot_csv"
    "str_contains env_marker (normalize_NFC sample_library (path_name ara_csv))"
    "map_of EC_MAPPING (split_first 95 (normalize_NFC sample_library (path_name ara_csv)))
       = Some \<lparr>EC_goal = 4, color = ''#ff7f0e''\<rparr>"
    "read_csv ara_csv = Inr ara_frame" "length (columns ara_frame) \<noteq> 5"
    by (simp_all add: ara_csv_def ara_frame_def sample_library_def sample_names sample_eval)
  have n: "normalize_NFC sample_library (path_name ara_csv) = env_file_name ara"
    "length (columns ara_frame) = 4"
    by (simp_all add: ara_csv_def ara_frame_def sample_library_def)
  have b: "read_csv songdo_csv = Inr songdo_frame"
    by (simp add: songdo_csv_def)
  from wrong_width_file_is_reported
         [OF a, of "[haneul_csv]" "[other_csv, songdo_csv, sample_xlsx]"]
  have "env_file sample_library ara_csv =
          Failed (EnvFileError (env_file_name ara) (LengthMismatch 4 5))
      \<and> EnvFileError (env_file_name ara) (LengthMismatch 4 5)
          \<in> set (fst (load_and_preprocess_env_data sample_library
                        ([haneul_csv] @ ara_csv # [other_csv, songdo_csv, sample_xlsx])))
      \<and> snd (load_and_preprocess_env_data sample_library
                ([haneul_csv] @ ara_csv # [other_csv, songdo_csv, sample_xlsx])) =
          snd (load_and_preprocess_env_data sample_library
                ([haneul_csv] @ [other_csv, songdo_csv, sample_xlsx]))
      \<and> (env_file sample_library songdo_csv = Loaded (tl sample_env_df)
            \<longrightarrow> read_csv songdo_csv = Inr songdo_frame
            \<longrightarrow> length (columns songdo_frame) = 5)"
    unfolding n by blast
  with a n songdo_csv_loaded b show ?thesis
    by simp
qed

section \<open>The signal for no environment data\<close>

lemma collect_no_loaded:
  "snd (collect f xs) = [] \<longleftrightarrow> (\<forall>p \<in> set xs. \<forall>df. f p \<noteq> Loaded df)"
proof -
  have "snd (collect f xs) = [] \<longleftrightarrow> set (snd (collect f xs)) = {}"
    by simp
  then show ?thesis
    unfolding collect_loaded by blast
qed

lemma env_collect_no_signal: "NoEnvData \<notin> set (fst (collect (env_file L) xs))"
  by (auto simp: collect_failed dest: env_file_Failed)

text \<open>
  Claim C8, as stated, fails: a directory whose only file is matched and read, with no
  timestamp that parses, gives an empty concatenation and two empty tables, and nothing
  is signalled.
\<close>

theorem empty_rows_not_signalled:
  "env_file sample_library dongsan_csv = Loaded []
   \<and> concat (snd (collect (env_file sample_library) [dongsan_csv])) = []
   \<and> load_and_preprocess_env_data sample_library [dongsan_csv] = ([], [], [])
   \<and> NoEnvData \<notin> set (fst (load_and_preprocess_env_data sample_library [dongsan_csv]))"
  by (simp add: load_and_preprocess_env_data_def dongsan_csv_loaded env_summary_of_Nil)

text \<open>
  Claim C8, amended. The loader signals the missing environment data exactly when no
  file was loaded, and then both tables are empty; whenever the unified table is empty,
  so is the summary.
\<close>

theorem no_env_data_signal:
  assumes "load_and_preprocess_env_data L data_dir = (ns, env_df, summary)"
  shows "(NoEnvData \<in> set ns \<longleftrightarrow> (\<forall>p \<in> set data_dir. \<forall>recs. env_file L p \<noteq> Loaded recs))
       \<and> (NoEnvData \<in> set ns \<longrightarrow> env_df = [] \<and> summary = [])
       \<and> (env_df = [] \<longrightarrow> summary = [])"
proof -
  obtain es fs where c: "collect (env_file L) data_dir = (es, fs)"
    by (cases "collect (env_file L) data_dir")
  have e: "NoEnvData \<notin> set es"
    using env_collect_no_signal [of L data_dir] c by simp
  have f: "fs = [] \<longleftrightarrow> (\<forall>p \<in> set data_dir. \<forall>recs. env_file L p \<noteq> Loaded recs)"
    using collect_no_loaded [of "env_file L" data_dir] c by simp
  from assms c have r: "ns = (if fs = [] then es @ [NoEnvData] else es)"
    "env_df = concat fs" "summary = env_summary_of (concat fs)"
    by (auto simp: env_load_collect)
  from r(2,3) have s: "summary = env_summary_of env_df"
    by simp
  have 1: "NoEnvData \<in> set ns \<longleftrightarrow> fs = []"
    using e r(1) by simp
  have 2: "fs = [] \<longrightarrow> env_df = []"
    using r(2) by simp
  have 3: "env_df = [] \<longrightarrow> summary = []"
    using s by (simp add: env_summary_of_Nil)
  from 1 2 3 f show ?thesis
    by blast
qed

theorem no_env_data_signal_witness:
  "load_and_preprocess_env_data sample_library [other_csv, ara_csv] =
     ([EnvFileError (env_file_name ara) (LengthMismatch 4 5), NoEnvData], [], [])
   \<and> NoEnvData \<in> set [EnvFileError (env_file_name ara) (LengthMismatch 4 5), NoEnvData]
   \<and> env_file sample_library other_csv = Skipped
   \<and> env_file sample_library ara_csv
       = Failed (EnvFileError (env_file_name ara) (LengthMismatch 4 5))
   \<and> env_file sample_library other_csv \<noteq> Loaded []
   \<and> env_file sample_library ara_csv \<noteq> Loaded []"
proof -
  have a: "load_and_preprocess_env_data sample_library [other_csv, ara_csv] =
     ([EnvFileError (env_file_name ara) (LengthMismatch 4 5), NoEnvData], [], [])"
    by (simp add: load_and_preprocess_env_data_def other_csv_skipped ara_csv_failed)
  from no_env_data_signal [OF a]
  have "env_file sample_library other_csv \<noteq> Loaded []
      \<and> env_file sample_library ara_csv \<noteq> Loaded []"
    by simp
  with a other_csv_skipped ara_csv_failed show ?thesis
    by simp
qed

section \<open>The growth loader\<close>

lemma growth_agg_Nil: "growth_agg [] = []"
  by (simp add: growth_agg_def groupby_def)

lemma growth_load_collect:
  assumes "find (is_growth_file L) data_dir = Some xlsx_path" and "ExcelFile xlsx_path = Inr xls"
  shows "load_and_preprocess_growth_data L data_dir =
     (let (ns, all_growth_data) =
            collect (growth_sheet L xls) (map (\<lambda>(nm, _). normalize_NFC L nm) xls) in
      (if all_growth_data = [] then ns @ [NoGrowthSheets] else ns,
       concat all_growth_data, growth_summary_of (concat all_growth_data)))"
  using assms
  by (simp add: load_and_preprocess_growth_data_def Let_def growth_summary_of_def growth_agg_Nil
      split: prod.splits)

lemma growth_sheet_Loaded:
  assumes "growth_sheet L xls nm = Loaded recs"
  obtains cfg df where
    "map_of EC_MAPPING nm = Some cfg" "parse_sheet xls nm = Inr df" "length (columns df) = 5"
    "recs = growth_rows L nm (EC_goal cfg) df"
  using assms
  by (auto simp: growth_sheet_def split: if_splits option.splits sum.splits)

lemma growth_load_rows:
  assumes "load_and_preprocess_growth_data L data_dir = (ns, growth_df, summary)"
    and "r \<in> set growth_df"
  shows "\<exists>xls nm recs. growth_sheet L xls nm = Loaded recs \<and> r \<in> set recs"
proof (cases "find (is_growth_file L) data_dir")
  case None
  with assms show ?thesis
    by (simp add: load_and_preprocess_growth_data_def)
next
  case (Some xlsx_path)
  show ?thesis
  proof (cases "ExcelFile xlsx_path")
    case (Inl e)
    with Some assms show ?thesis
      by (simp add: load_and_preprocess_growth_data_def)
  next
    case (Inr xls)
    obtain es fs where
      c: "collect (growth_sheet L xls) (map (\<lambda>(nm, _). normalize_NFC L nm) xls) = (es, fs)"
      by (cases "collect (growth_sheet L xls) (map (\<lambda>(nm, _). normalize_NFC L nm) xls)")
    with assms(1) growth_load_collect [OF Some Inr] have "growth_df = concat fs"
      by simp
    with assms(2) obtain recs where "recs \<in> set fs" "r \<in> set recs"
      by auto
    moreover have "set fs = {df. \<exists>nm \<in> set (map (\<lambda>(nm, _). normalize_NFC L nm) xls).
                                growth_sheet L xls nm = Loaded df}"
      using collect_loaded [of "growth_sheet L xls" "map (\<lambda>(nm, _). normalize_NFC L nm) xls"] c
      by simp
    ultimately show ?thesis
      by blast
  qed
qed

lemma env_load_rows:
  assumes "load_and_preprocess_env_data L data_dir = (ns, env_df, summary)"
    and "r \<in> set env_df"
  shows "\<exists>p recs. p \<in> set data_dir \<and> env_file L p = Loaded recs \<and> r \<in> set recs"
proof -
  from env_load_tables(1) [OF assms(1)] assms(2)
  obtain recs where "recs \<in> set (snd (collect (env_file L) data_dir))" "r \<in> set recs"
    by auto
  then show ?thesis
    by (auto simp: collect_loaded)
qed

subsection \<open>The sample workbook, evaluated\<close>

lemma sample_find_xlsx: "find (is_growth_file sample_library) sample_dir = Some sample_xlsx"
  by (simp add: sample_dir_def is_growth_file_def sample_library_def haneul_csv_def ara_csv_def
      other_csv_def songdo_csv_def sample_xlsx_def sample_names sample_eval)

lemma sample_growth_loaded:
  "load_and_preprocess_growth_data sample_library sample_dir =
     ([], sample_growth_df, map label_row sample_growth_agg)"
proof -
  have x: "ExcelFile sample_xlsx = Inr (projr (ExcelFile sample_xlsx))"
    by (simp add: sample_xlsx_def)
  have "load_and_preprocess_growth_data sample_library sample_dir =
          ([], sample_growth_df, growth_summary_of sample_growth_df)"
    unfolding growth_load_collect [OF sample_find_xlsx x]
    by (simp add: sample_xlsx_def growth_sheet_def parse_sheet_def growth_rows_def
        sample_library_def sample_growth_df_def sample_names sample_eval)
  then show ?thesis
    by (simp add: growth_summary_of_def sample_growth_agg_eq)
qed

section \<open>Records and the registry\<close>

text \<open>
  Claim C9. Every record of the two unified tables carries a school that is a key of the
  registry and the EC target that the registry gives for that school. A file whose
  extracted school name, and a sheet whose name, is not a key of the registry is skipped:
  it adds no record and no notice.
\<close>

theorem records_agree_with_registry:
  assumes "load_and_preprocess_env_data L data_dir = (ns, env_df, summary)"
    and "load_and_preprocess_growth_data L data_dir = (gns, growth_df, gsummary)"
  shows "(\<forall>r \<in> set env_df.
            map_option EC_goal (map_of EC_MAPPING (school r)) = Some (ec_goal r))
       \<and> (\<forall>r \<in> set growth_df.
            map_option EC_goal (map_of EC_MAPPING (g_school r)) = Some (g_ec_goal r))
       \<and> (\<forall>p. map_of EC_MAPPING (split_first 95 (normalize_NFC L (path_name p))) = None
              \<longrightarrow> env_file L p = Skipped \<and> collect (env_file L) [p] = ([], []))
       \<and> (\<forall>xls nm. map_of EC_MAPPING nm = None
              \<longrightarrow> growth_sheet L xls nm = Skipped \<and> collect (growth_sheet L xls) [nm] = ([], []))"
proof -
  have 1: "map_option EC_goal (map_of EC_MAPPING (school r)) = Some (ec_goal r)"
    if "r \<in> set env_df" for r
  proof -
    from env_load_rows [OF assms(1) that] obtain p recs where
      "env_file L p = Loaded recs" "r \<in> set recs"
      by blast
    then show ?thesis
      by (auto elim!: env_file_Loaded simp: env_rows_eq)
  qed
  have 2: "map_option EC_goal (map_of EC_MAPPING (g_school r)) = Some (g_ec_goal r)"
    if "r \<in> set growth_df" for r
  proof -
    from growth_load_rows [OF assms(2) that] obtain xls nm recs where
      "growth_sheet L xls nm = Loaded recs" "r \<in> set recs"
      by blast
    then show ?thesis
      by (auto elim!: growth_sheet_Loaded simp: growth_rows_def)
  qed
  have 3: "env_file L p = Skipped \<and> collect (env_file L) [p] = ([], [])"
    if "map_of EC_MAPPING (split_first 95 (normalize_NFC L (path_name p))) = None" for p
    using that by (simp add: env_file_def Let_def)
  have 4: "growth_sheet L xls nm = Skipped \<and> collect (growth_sheet L xls) [nm] = ([], [])"
    if "map_of EC_MAPPING nm = None" for xls nm
    using that by (simp add: growth_sheet_def)
  from 1 2 3 4 show ?thesis
    by blast
qed

theorem records_agree_with_registry_witness:
  "load_and_preprocess_env_data sample_library sample_dir =
     ([EnvFileError (env_file_name ara) (LengthMismatch 4 5)], sample_env_df, sample_env_summary)
   \<and> load_and_preprocess_growth_data sample_library sample_dir =
     ([], sample_growth_df, map label_row sample_growth_agg)
   \<and> hd sample_env_df \<in> set sample_env_df
   \<and> school (hd sample_env_df) = haneul \<and> ec_goal (hd sample_env_df) = 2
   \<and> map_option EC_goal (map_of EC_MAPPING haneul) = Some 2
   \<and> last sample_growth_df \<in> set sample_growth_df
   \<and> g_school (last sample_growth_df) = songdo \<and> g_ec_goal (last sample_growth_df) = 1
   \<and> map_option EC_goal (map_of EC_MAPPING songdo) = Some 1
   \<and> map_of EC_MAPPING (split_first 95 (normalize_NFC sample_library (path_name other_csv)))
       = None
   \<and> env_file sample_library other_csv = Skipped
   \<and> map_of EC_MAPPING [44592, 53440] = None
   \<and> growth_sheet sample_library (projr (ExcelFile sample_xlsx)) [44592, 53440] = Skipped"
proof -
  have a: "hd sample_env_df \<in> set sample_env_df" "school (hd sample_env_df) = haneul"
    "ec_goal (hd sample_env_df) = 2"
    by (simp_all add: sample_env_df_def)
  have b: "last sample_growth_df \<in> set sample_growth_df"
    "g_school (last sample_growth_df) = songdo" "g_ec_goal (last sample_growth_df) = 1"
    by (simp_all add: sample_growth_df_def)
  have c: "map_of EC_MAPPING
             (split_first 95 (normalize_NFC sample_library (path_name other_csv))) = None"
    "map_of EC_MAPPING [44592, 53440] = None"
    by (simp_all add: other_csv_def sample_library_def sample_names sample_eval)
  from records_agree_with_registry [OF sample_env_loaded sample_growth_loaded]
  have "map_option EC_goal (map_of EC_MAPPING (school (hd sample_env_df)))
          = Some (ec_goal (hd sample_env_df))
      \<and> map_option EC_goal (map_of EC_MAPPING (g_school (last sample_growth_df)))
          = Some (g_ec_goal (last sample_growth_df))
      \<and> env_file sample_library other_csv = Skipped
      \<and> growth_sheet sample_library (projr (ExcelFile sample_xlsx)) [44592, 53440] = Skipped"
    using a(1) b(1) c by blast
  with a b c sample_env_loaded sample_growth_loaded show ?thesis
    by simp
qed

section \<open>The counts of the summaries\<close>

lemma notna_map_Some: "notna (map (\<lambda>r. Some (f r)) xs) = map f xs"
  by (induction xs) (simp_all add: notna_def)

lemma count_agg_filter: "count_agg (map f xs) = length [r \<leftarrow> xs. f r \<noteq> None]"
  by (induction xs) (auto simp: count_agg_def notna_def split: option.splits)

lemma env_load_time: 
  assumes "load_and_preprocess_env_data L data_dir = (ns, env_df, summary)"
    and "r \<in> set env_df"
  shows "time r \<noteq> None"
proof -
  from env_load_rows [OF assms] obtain p recs where
    "env_file L p = Loaded recs" "r \<in> set recs"
    by blast
  then show ?thesis
    by (auto elim!: env_file_Loaded simp: env_rows_eq)
qed

text \<open>
  In the environment summary of a loaded table the count of a school is the number of
  its rows, whatever numeric fields are missing.
\<close>

lemma env_count_is_row_count:
  assumes "load_and_preprocess_env_data L data_dir = (ns, env_df, summary)"
    and "s \<in> set summary"
  shows "count s = length [r \<leftarrow> env_df. school r = s_school s]"
proof -
  from assms(2) env_load_tables(2) [OF assms(1)] have "s \<in> set (env_summary_of env_df)"
    by simp
  then have "count s = length [r \<leftarrow> [r \<leftarrow> env_df. school r = s_school s]. time r \<noteq> None]"
    by (simp add: env_summary_mem count_agg_filter)
  also have "[r \<leftarrow> [r \<leftarrow> env_df. school r = s_school s]. time r \<noteq> None]
               = [r \<leftarrow> env_df. school r = s_school s]"
    using env_load_time [OF assms(1)] by (intro filter_True) simp
  finally show ?thesis .
qed

text \<open>In the growth aggregation the count of a group is the number of its identifiers.\<close>

lemma growth_count_is_id_count:
  assumes "t \<in> set (growth_agg growth_df)"
  shows "gs_count t =
           length [r \<leftarrow> growth_df. g_ec_goal r = gs_ec_goal t \<and> individual_id r \<noteq> None]"
  using growth_agg_mem [OF assms] by (simp add: count_agg_filter conj_commute)

text \<open>
  Claim C4 fails on the growth summary. The sample workbook is loaded into four rows; the
  group of EC target 1 has three rows, one of them without identifier, and its count is
  2, while the overview tab counts three plants for the school of that group.
\<close>

theorem growth_count_skips_missing_id:
  "load_and_preprocess_growth_data sample_library sample_dir =
     ([], sample_growth_df, map label_row sample_growth_agg)
   \<and> map gs_ec_goal (map label_row sample_growth_agg) = [Some ''1.0 EC'', Some ''2.0 EC'']
   \<and> map gs_count (map label_row sample_growth_agg) = [2, 1]
   \<and> length [r \<leftarrow> sample_growth_df. g_ec_goal r = 1] = 3
   \<and> growth_count sample_growth_df songdo = 3"
  by (simp add: sample_growth_loaded)
     (simp add: sample_growth_agg_def sample_growth_df_def label_row_def ec_label_def
       float_str_def digits.simps digit_char_def growth_count_def songdo_def haneul_def)

section \<open>The order of the summary rows\<close>

lemma env_summary_keys: "map s_school (env_summary_of df) = sort (remdups (map school df))"
  by (simp add: env_summary_of_def groupby_def comp_def)

lemma growth_agg_keys: "map gs_ec_goal (growth_agg df) = sort (remdups (map g_ec_goal df))"
  by (simp add: growth_agg_def groupby_def comp_def)

lemma strictly_ascending_sort_remdups: "sorted_wrt (<) (sort (remdups xs))"
  by (simp add: strict_sorted_iff)

text \<open>
  Claim C3, as stated, fails. The sample table meets the second school of the registry
  first, and the summary lists the first school first; the growth table meets EC target
  2 before 1, and the aggregation lists 1 before 2.
\<close>

theorem summary_order_is_not_first_occurrence:
  "first_occurrence_order (map school sample_env_df) = [haneul, songdo]
   \<and> map s_school (env_summary_of sample_env_df) = [songdo, haneul]
   \<and> map s_school (env_summary_of sample_env_df)
       \<noteq> first_occurrence_order (map school sample_env_df)
   \<and> first_occurrence_order (map g_ec_goal sample_growth_df) = [2, 1]
   \<and> map gs_ec_goal (growth_agg sample_growth_df) = [1, 2]
   \<and> map gs_ec_goal (growth_agg sample_growth_df)
       \<noteq> first_occurrence_order (map g_ec_goal sample_growth_df)"
  by (simp add: sample_env_summary_eq sample_growth_agg_eq)
     (simp add: sample_env_summary_def sample_growth_agg_def sample_env_df_def
       sample_growth_df_def first_occurrence_order_def songdo_def haneul_def)

text \<open>
  Claim C3, amended. The keys of a summary are the distinct keys of the table in strictly
  ascending order (schools by code point, EC targets by value), wherever each is first
  met; the labelled growth summary keeps the order of the aggregation.
\<close>

theorem summary_keys_ascending:
  "sorted_wrt (<) (map s_school (env_summary_of env_df))
   \<and> set (map s_school (env_summary_of env_df)) = school ` set env_df
   \<and> sorted_wrt (<) (map gs_ec_goal (growth_agg growth_df))
   \<and> set (map gs_ec_goal (growth_agg growth_df)) = g_ec_goal ` set growth_df
   \<and> map gs_ec_goal (growth_summary_of growth_df)
       = map ec_label (map gs_ec_goal (growth_agg growth_df))"
proof -
  have "map gs_ec_goal (growth_summary_of growth_df)
          = map ec_label (map gs_ec_goal (growth_agg growth_df))"
    by (simp add: growth_summary_of_def label_row_def comp_def)
  then show ?thesis
    by (simp add: env_summary_keys growth_agg_keys strictly_ascending_sort_remdups)
qed

section \<open>The EC label and the school behind it\<close>

text \<open>
  Claim C6. For every school of the registry, the label made of the text of its EC target
  and the suffix \<^verbatim>\<open> EC\<close> leads back to that school: the number before the first space,
  looked up among the targets of the registry, gives the school itself. The four labels
  are \<^verbatim>\<open>1.0 EC\<close>, \<^verbatim>\<open>2.0 EC\<close>, \<^verbatim>\<open>4.0 EC\<close> and \<^verbatim>\<open>8.0 EC\<close>.
\<close>

theorem ec_label_round_trip:
  "map (\<lambda>(s, d). ec_label (EC_goal d)) EC_MAPPING
     = [Some ''1.0 EC'', Some ''2.0 EC'', Some ''4.0 EC'', Some ''8.0 EC'']
   \<and> map (\<lambda>(s, d). Option.bind (ec_label (EC_goal d)) school_of_label) EC_MAPPING
     = map (\<lambda>(s, d). Some s) EC_MAPPING"
  by (simp add: EC_MAPPING_def ec_label_def float_str_def digits.simps digit_char_def
      school_of_label_def split_first_def float_of_str_def digit_val_def upt_rec
      songdo_def haneul_def ara_def dongsan_def)

section \<open>The downloads\<close>

text \<open>
  Claim C7 fails on both downloads. For the rows of the first school of the sample, the
  table shown has six columns, without \<open>ec_goal\<close>; the table written to the CSV download
  is the whole filtered frame, whose seventh column is \<open>ec_goal\<close>, and so is the table
  written to the workbook download.
\<close>

theorem downloads_keep_ec_goal:
  "fst (env_shown (filter_env (Some songdo) sample_env_df) :: (string, nat) table)
     = [''time'', ''temperature'', ''humidity'', ''ph'', ''ec'', ''school'']
   \<and> fst (env_download (filter_env (Some songdo) sample_env_df) :: (string, nat) table)
     = [''time'', ''temperature'', ''humidity'', ''ph'', ''ec'', ''school'', ''ec_goal'']
   \<and> map last (snd (env_download (filter_env (Some songdo) sample_env_df)
                     :: (string, nat) table))
     = [NumCell (Some 1), NumCell (Some 1), NumCell (Some 1)]
   \<and> fst (growth_shown (filter_growth (Some songdo) sample_growth_df) :: (string, nat) table)
     = [''individual_id'', ''leaf_count'', ''shoot_length'', ''root_length'', ''fresh_weight'',
        ''school'']
   \<and> fst (growth_download (filter_growth (Some songdo) sample_growth_df)
            :: (string, nat) table)
     = [''individual_id'', ''leaf_count'', ''shoot_length'', ''root_length'', ''fresh_weight'',
        ''school'', ''ec_goal'']
   \<and> map last (snd (growth_download (filter_growth (Some songdo) sample_growth_df)
                     :: (string, nat) table))
     = [NumCell (Some 1), NumCell (Some 1), NumCell (Some 1)]"
  by (simp add: env_shown_def env_download_def growth_shown_def growth_download_def
      env_table_def growth_table_def drop_columns_def filter_env_def filter_growth_def
      sample_env_df_def sample_growth_df_def songdo_def haneul_def)

section \<open>Aggregating a summary again\<close>

lemma filter_key_distinct:
  "distinct (map key xs) \<Longrightarrow> x \<in> set xs \<Longrightarrow> filter (\<lambda>r. key r = key x) xs = [x]"
proof (induction xs)
  case Nil
  then show ?case by simp
next
  case (Cons a xs)
  show ?case
  proof (cases "x = a")
    case True
    from Cons.prems(1) have "\<forall>r \<in> set xs. key r \<noteq> key a"
      by (force simp: image_iff)
    then have "filter (\<lambda>r. key r = key a) xs = []"
      by (simp add: filter_empty_conv)
    with True show ?thesis by simp
  next
    case False
    with Cons.prems have "x \<in> set xs" "key a \<noteq> key x"
      by auto
    with Cons show ?thesis by simp
  qed
qed

lemma groupby_singletons:
  assumes "sorted_wrt (<) (map key xs)"
  shows "groupby key xs = map (\<lambda>x. (key x, [x])) xs"
proof -
  from assms have d: "distinct (map key xs)" and s: "sorted (map key xs)"
    by (simp_all add: strict_sorted_iff)
  have "groupby key xs = map (\<lambda>x. (key x, filter (\<lambda>r. key r = key x) xs)) xs"
    using d s by (simp add: groupby_def distinct_remdups_id sort_key_id_if_sorted comp_def)
  also have "\<dots> = map (\<lambda>x. (key x, [x])) xs"
    using filter_key_distinct [OF d] by simp
  finally show ?thesis .
qed

lemma mean_agg_single: "mean_agg [v] = v"
  by (cases v) (simp_all add: mean_agg_def notna_def)

lemma first_agg_single: "first_agg [v] = v"
  by (cases v) (simp_all add: first_agg_def notna_def)

lemma count_agg_single: "count_agg [Some n] = 1"
  by (simp add: count_agg_def notna_def)

lemma env_reaggregate_eq:
  "env_reaggregate (env_summary_of df) = map (\<lambda>s. s\<lparr>count := 1\<rparr>) (env_summary_of df)"
proof -
  have "sorted_wrt (<) (map s_school (env_summary_of df))"
    by (simp add: env_summary_keys strictly_ascending_sort_remdups)
  then show ?thesis
    by (simp add: env_reaggregate_def groupby_singletons comp_def mean_agg_single
        first_agg_single count_agg_single)
qed

lemma growth_reaggregate_eq:
  assumes "sorted_wrt (<) (map gs_ec_goal summary)"
  shows "growth_reaggregate summary = map (\<lambda>s. s\<lparr>gs_count := 1\<rparr>) summary"
  using assms
  by (simp add: growth_reaggregate_def groupby_singletons comp_def mean_agg_single
      count_agg_single)

lemma registry_labels:
  "ec_label 1 = Some ''1.0 EC''" "ec_label 2 = Some ''2.0 EC''"
  "ec_label 4 = Some ''4.0 EC''" "ec_label 8 = Some ''8.0 EC''"
  by (simp_all add: ec_label_def float_str_def digits.simps digit_char_def)

lemma registry_goal_cases:
  "map_option EC_goal (map_of EC_MAPPING nm) = Some x \<Longrightarrow> x \<in> {1, 2, 4, 8}"
  by (auto simp: EC_MAPPING_def split: if_splits)

lemma ec_label_mono_on_registry:
  "x \<in> {1, 2, 4, 8} \<Longrightarrow> y \<in> {1, 2, 4, 8} \<Longrightarrow> x < y \<Longrightarrow> ec_label x < ec_label y"
  by (auto simp: registry_labels)

lemma growth_load_goal:
  assumes "load_and_preprocess_growth_data L data_dir = (gns, growth_df, gsummary)"
    and "r \<in> set growth_df"
  shows "g_ec_goal r \<in> {1, 2, 4, 8}"
proof -
  from growth_load_rows [OF assms] obtain xls nm recs where
    "growth_sheet L xls nm = Loaded recs" "r \<in> set recs"
    by blast
  then have "map_option EC_goal (map_of EC_MAPPING (g_school r)) = Some (g_ec_goal r)"
    by (auto elim!: growth_sheet_Loaded simp: growth_rows_def)
  then show ?thesis
    by (rule registry_goal_cases)
qed

lemma growth_load_summary:
  assumes "load_and_preprocess_growth_data L data_dir = (gns, growth_df, gsummary)"
  shows "gsummary = growth_summary_of growth_df"
  using assms
  by (auto simp: load_and_preprocess_growth_data_def Let_def growth_summary_of_def growth_agg_Nil
      split: option.splits sum.splits prod.splits if_splits)

text \<open>
  Claim C5, as stated, fails. The sample summaries count 3 and 1 rows (environment) and
  2 and 1 identifiers (growth); aggregated again by the same key, every group is one
  summary row and every count is 1.
\<close>

theorem reaggregation_changes_counts:
  "map count (env_summary_of sample_env_df) = [3, 1]
   \<and> map count (env_reaggregate (env_summary_of sample_env_df)) = [1, 1]
   \<and> env_reaggregate (env_summary_of sample_env_df) \<noteq> env_summary_of sample_env_df
   \<and> map gs_count (growth_summary_of sample_growth_df) = [2, 1]
   \<and> map gs_count (growth_reaggregate (growth_summary_of sample_growth_df)) = [1, 1]
   \<and> growth_reaggregate (growth_summary_of sample_growth_df)
       \<noteq> growth_summary_of sample_growth_df"
proof -
  have g: "growth_summary_of sample_growth_df = map label_row sample_growth_agg"
    by (simp add: growth_summary_of_def sample_growth_agg_eq)
  have "sorted_wrt (<) (map gs_ec_goal (map label_row sample_growth_agg))"
    by (simp add: sample_growth_agg_def label_row_def registry_labels)
  from growth_reaggregate_eq [OF this]
  have r: "growth_reaggregate (map label_row sample_growth_agg)
             = map (\<lambda>s. s\<lparr>gs_count := 1\<rparr>) (map label_row sample_growth_agg)" .
  have e: "env_reaggregate (env_summary_of sample_env_df)
             = map (\<lambda>s. s\<lparr>count := 1\<rparr>) sample_env_summary"
    using env_reaggregate_eq [of sample_env_df] by (simp add: sample_env_summary_eq)
  show ?thesis
    unfolding e g r
    by (simp add: sample_env_summary_eq)
       (simp add: sample_env_summary_def sample_growth_agg_def label_row_def)
qed

text \<open>
  Claim C5, amended. Aggregating a summary again by the same key gives back every key, in
  the same order, with the same means (and the same EC target), and sets every count to
  1: each group is a single summary row. This holds for the environment summary of any
  table and for the labelled growth summary of a loaded table; the environment summary is
  reproduced exactly when each of its counts is 1.
\<close>

theorem reaggregation_keeps_means_resets_counts:
  assumes "load_and_preprocess_growth_data L data_dir = (gns, growth_df, gsummary)"
  shows "env_reaggregate (env_summary_of env_df)
           = map (\<lambda>s. s\<lparr>count := 1\<rparr>) (env_summary_of env_df)
       \<and> (env_reaggregate (env_summary_of env_df) = env_summary_of env_df
            \<longleftrightarrow> (\<forall>s \<in> set (env_summary_of env_df). count s = 1))
       \<and> growth_reaggregate gsummary = map (\<lambda>s. s\<lparr>gs_count := 1\<rparr>) gsummary"
proof -
  have 1: "(map (\<lambda>s. s\<lparr>count := 1\<rparr>) (env_summary_of env_df) = env_summary_of env_df)
             \<longleftrightarrow> (\<forall>s \<in> set (env_summary_of env_df). count s = 1)"
  proof -
    have "(s\<lparr>count := 1\<rparr> = s) \<longleftrightarrow> count s = 1" for s :: env_summary
      by (cases s) auto
    then show ?thesis
      by (simp add: map_idI list.map_ident_strong map_eq_conv [where g = "\<lambda>s. s", simplified])
  qed
  let ?ks = "map gs_ec_goal (growth_agg growth_df)"
  have "sorted_wrt (<) ?ks"
    by (simp add: growth_agg_keys strictly_ascending_sort_remdups)
  moreover have "set ?ks \<subseteq> {1, 2, 4, 8}"
    using growth_load_goal [OF assms] by (auto simp: growth_agg_keys)
  ultimately have "sorted_wrt (\<lambda>x y. ec_label x < ec_label y) ?ks"
    by (rule_tac sorted_wrt_mono_rel [where P = "(<)"])
       (auto intro: ec_label_mono_on_registry)
  then have "sorted_wrt (<) (map gs_ec_goal (growth_summary_of growth_df))"
    by (simp add: growth_summary_of_def label_row_def comp_def sorted_wrt_map)
  then have "growth_reaggregate gsummary = map (\<lambda>s. s\<lparr>gs_count := 1\<rparr>) gsummary"
    unfolding growth_load_summary [OF assms] by (rule growth_reaggregate_eq)
  with 1 show ?thesis
    by (simp add: env_reaggregate_eq)
qed

theorem reaggregation_keeps_means_resets_counts_witness:
  "load_and_preprocess_growth_data sample_library sample_dir =
     ([], sample_growth_df, map label_row sample_growth_agg)
   \<and> env_reaggregate (env_summary_of sample_env_df)
       = map (\<lambda>s. s\<lparr>count := 1\<rparr>) sample_env_summary
   \<and> map avg_temp (env_reaggregate (env_summary_of sample_env_df)) = [Some 15, Some 30]
   \<and> growth_reaggregate (map label_row sample_growth_agg)
       = map (\<lambda>s. s\<lparr>gs_count := 1\<rparr>) (map label_row sample_growth_agg)
   \<and> map gs_ec_goal (growth_reaggregate (map label_row sample_growth_agg))
       = [Some ''1.0 EC'', Some ''2.0 EC'']"
  using reaggregation_keeps_means_resets_counts [OF sample_growth_loaded, of sample_env_df]
    sample_growth_loaded
  by (simp add: sample_env_summary_eq)
     (simp add: sample_env_summary_def sample_growth_agg_def label_row_def registry_labels)

end
